theory Spec2Isabelle
  imports Complex_Main
begin

section \<open>Rigol instrument scripts: the oscilloscope read-out and the waveform quantisers\<close>

text \<open>
  The development follows \<^verbatim>\<open>RigolInstruments.py\<close> (class \<^verbatim>\<open>RigolDS1102\<close> and the
  \<^verbatim>\<open>loadVolatile\<close> method of the two DG1032 classes) and \<^verbatim>\<open>GenerateArb.py\<close>.

  Conventions of the embedding:
  \<^item> A Python float or numpy \<^verbatim>\<open>float64\<close> value is the real number it stands for; the
    rounding of an operation on doubles is the function \<open>fl\<close>.
  \<^item> The scripts are Python 2 (\<^verbatim>\<open>import visa\<close>, \<^verbatim>\<open>raw_input\<close>): what the transport
    returns is a byte string, here a \<^typ>\<open>string\<close>, compared with the literals of the
    source and decoded bytewise by \<^verbatim>\<open>np.frombuffer(..., 'B')\<close>.
  \<^item> An exception is a value \<open>Inl e\<close>; the object's attributes keep the values they had
    when the exception was raised.
  \<^item> \<^verbatim>\<open>time.sleep\<close> and \<^verbatim>\<open>print\<close> are left out: they neither change an attribute nor
    talk to the instrument.
\<close>

subsection \<open>Exceptions\<close>

text \<open>
  The exceptions the modelled statements can raise. \<open>UnsupportedConfiguration\<close> is the name
  the design document uses; no statement of the source raises it.
\<close>

datatype error =
    UnboundLocalError
  | AttributeError
  | ValueError
  | ZeroDivisionError
  | IndexError
  | OverflowError
  | UnsupportedConfiguration

subsection \<open>The transport and the builtins\<close>

text \<open>
  \<open>respond env log\<close> is what the instrument has ready to be read once the commands of
  \<open>log\<close> (oldest first) have been written: the reply to the last of them, which may depend on
  all the earlier ones. \<open>pyfloat\<close> and \<open>pyint\<close> stand for Python's \<^verbatim>\<open>float(str)\<close> and
  \<^verbatim>\<open>int(str)\<close>, \<open>None\<close> where they raise \<^verbatim>\<open>ValueError\<close>.
\<close>

record env =
  respond :: "string list \<Rightarrow> string"
  pyfloat :: "string \<Rightarrow> real option"
  pyint :: "string \<Rightarrow> int option"

text \<open>\<^verbatim>\<open>str(n)\<close> for an integer, and \<^verbatim>\<open>str.upper\<close> on ASCII.\<close>

fun digits :: "nat \<Rightarrow> string" where
  "digits n = (if n < 10 then [char_of (48 + n)]
               else digits (n div 10) @ [char_of (48 + n mod 10)])"

definition pystr :: "int \<Rightarrow> string" where
  "pystr i = (if i < 0 then CHR ''-'' # digits (nat (- i)) else digits (nat i))"

definition upper_char :: "char \<Rightarrow> char" where
  "upper_char c = (let n = (of_char c :: nat)
                   in if 97 \<le> n \<and> n \<le> 122 then char_of (n - 32) else c)"

definition upper :: "string \<Rightarrow> string" where
  "upper cs = map upper_char cs"

subsection \<open>Double-precision arithmetic\<close>

text \<open>\<^verbatim>\<open>np.round\<close> rounds to the nearest integer, a tie to the even neighbour.\<close>

definition np_round :: "real \<Rightarrow> int" where
  "np_round x =
     (let f = \<lfloor>x\<rfloor>
      in if x - of_int f < 1 / 2 then f
         else if 1 / 2 < x - of_int f then f + 1
         else if even f then f else f + 1)"

text \<open>
  A Python float is an IEEE 754 binary64 number, \<open>m * 2 ^ (e - 52)\<close> with an integer \<open>m\<close>
  below \<open>2 ^ 53\<close> in size and \<open>-1022 \<le> e \<le> 1023\<close>, and every arithmetic operation returns
  the exact result rounded to the nearest such number, a tie to the one with even \<open>m\<close>.
  \<open>binade x\<close> is the exponent \<open>e\<close> for \<open>x\<close>: the largest one with \<open>2 ^ e \<le> \<bar>x\<bar>\<close>, and
  \<open>-1022\<close> for the subnormal numbers below; \<open>scan k e p x\<close> looks for it from \<open>e\<close> downwards over
  \<open>k\<close> exponents, \<open>p\<close> being \<open>2 ^ e\<close>. \<open>fl\<close> is the rounding. Overflow to an
  infinity (beyond \<open>2 ^ 1024\<close>) is not represented.
\<close>

fun scan :: "nat \<Rightarrow> int \<Rightarrow> real \<Rightarrow> real \<Rightarrow> int" where
  "scan 0 e p x = e"
| "scan (Suc k) e p x = (if p \<le> \<bar>x\<bar> then e else scan k (e - 1) (p / 2) x)"

definition binade :: "real \<Rightarrow> int" where
  "binade x = scan 2045 1023 (2 ^ 1023) x"

definition fl :: "real \<Rightarrow> real" where
  "fl x = (let u = 2 powi (binade x - 52) in of_int (np_round (x / u)) * u)"

subsection \<open>The oscilloscope object\<close>

text \<open>
  The attributes of a \<^verbatim>\<open>RigolDS1102\<close> object that the read-out uses (\<open>None\<close>: the attribute
  has not been assigned yet), and \<open>sent\<close>, the commands written to the transport so far.
\<close>

record scope =
  nChannels :: "int option"
  nPoints :: "int option"
  tScale :: "real option"
  tOffs :: "real option"
  acqMode :: "string option"
  memDepth :: "string option"
  sent :: "string list"

text \<open>
  A method call: from the object before the call to the value returned or the exception
  raised, and the object after it.
\<close>

type_synonym ('s, 'a) call = "'s \<Rightarrow> (error + 'a) \<times> 's"

type_synonym 'a action = "(scope, 'a) call"

definition ret :: "'a \<Rightarrow> ('s, 'a) call" where
  "ret x s = (Inr x, s)"

definition throw :: "error \<Rightarrow> ('s, 'a) call" where
  "throw e s = (Inl e, s)"

definition andThen :: "('s, 'a) call \<Rightarrow> ('a \<Rightarrow> ('s, 'b) call) \<Rightarrow> ('s, 'b) call" where
  "andThen m f s = (case m s of (Inl e, s') \<Rightarrow> (Inl e, s') | (Inr x, s') \<Rightarrow> f x s')"

text \<open>\<^verbatim>\<open>write\<close>, \<^verbatim>\<open>read\<close> and \<^verbatim>\<open>query\<close> (lines 132-145), on the USBTMC resource.\<close>

definition scope_write :: "string \<Rightarrow> unit action" where
  "scope_write command s = (Inr (), s\<lparr>sent := sent s @ [command]\<rparr>)"

definition scope_read :: "env \<Rightarrow> nat \<Rightarrow> string action" where
  "scope_read env nRead s = (Inr (take nRead (respond env (sent s))), s)"

definition scope_query :: "env \<Rightarrow> string \<Rightarrow> string action" where
  "scope_query env command = andThen (scope_write command) (\<lambda>_. scope_read env 100)"

definition to_float :: "env \<Rightarrow> string \<Rightarrow> real action" where
  "to_float env txt = (case pyfloat env txt of None \<Rightarrow> throw ValueError | Some x \<Rightarrow> ret x)"

definition to_int :: "env \<Rightarrow> string \<Rightarrow> int action" where
  "to_int env txt = (case pyint env txt of None \<Rightarrow> throw ValueError | Some x \<Rightarrow> ret x)"

text \<open>Reading an attribute that was never assigned raises \<^verbatim>\<open>AttributeError\<close>.\<close>

definition attr :: "(scope \<Rightarrow> 'a option) \<Rightarrow> 'a action" where
  "attr field s = (case field s of None \<Rightarrow> (Inl AttributeError, s) | Some v \<Rightarrow> (Inr v, s))"

subsection \<open>Reading scope settings (lines 161-253)\<close>

definition getVScale :: "env \<Rightarrow> int \<Rightarrow> real action" where
  "getVScale env channel =
     andThen (scope_query env ('':CHAN'' @ pystr channel @ '':SCAL?'')) (to_float env)"

definition getVOffset :: "env \<Rightarrow> int \<Rightarrow> real action" where
  "getVOffset env channel =
     andThen (scope_query env ('':CHAN'' @ pystr channel @ '':OFFS?'')) (to_float env)"

definition getTScale :: "env \<Rightarrow> unit action" where
  "getTScale env =
     andThen (scope_query env '':TIM:SCAL?'') (\<lambda>r.
     andThen (to_float env r) (\<lambda>x s. (Inr (), s\<lparr>tScale := Some x\<rparr>)))"

definition getTOffset :: "env \<Rightarrow> real action" where
  "getTOffset env =
     andThen (scope_query env '':TIM:OFFS?'') (\<lambda>r.
     andThen (to_float env r) (\<lambda>x s. (Inr x, s\<lparr>tOffs := Some x\<rparr>)))"

definition getMemDepth :: "env \<Rightarrow> string action" where
  "getMemDepth env =
     andThen (scope_query env '':ACQ:MEMDEPTH?'') (\<lambda>r s. (Inr r, s\<lparr>memDepth := Some r\<rparr>))"

definition getAcqMode :: "env \<Rightarrow> string action" where
  "getAcqMode env =
     andThen (scope_query env '':WAV:POINTS:MODE?'') (\<lambda>r s. (Inr r, s\<lparr>acqMode := Some r\<rparr>))"

text \<open>
  The \<^verbatim>\<open>if\<close>/\<^verbatim>\<open>elif\<close> chain of \<^verbatim>\<open>getNPoints\<close> (lines 225-235) on
  \<^verbatim>\<open>dataPointSwitch = [mode, depth, nChannels]\<close>. There is no \<^verbatim>\<open>else\<close>: \<open>None\<close> is the
  local variable \<^verbatim>\<open>nPoints\<close> left unbound.
\<close>

definition dataPointSwitch :: "string \<Rightarrow> string \<Rightarrow> int \<Rightarrow> int option" where
  "dataPointSwitch mode depth nCh =
     (if mode = ''NORMAL'' then Some (600 + 10)
      else if depth = ''NORMAL'' \<and> nCh = 2 then Some (8192 + 10)
      else if depth = ''NORMAL'' \<and> nCh = 1 then Some (16384 + 10)
      else if depth = ''LONG'' \<and> nCh = 2 then Some (524288 + 10)
      else if depth = ''LONG'' \<and> nCh = 1 then Some (1048576 + 10)
      else None)"

text \<open>
  \<^verbatim>\<open>getNPoints\<close> (lines 219-237). The list is built left to right, so both queries are sent
  before \<^verbatim>\<open>self.nChannels\<close> is read. The last line, \<^verbatim>\<open>self.nPoints = nPoints\<close>, raises
  \<^verbatim>\<open>UnboundLocalError\<close> when no branch assigned the local variable.
\<close>

definition getNPoints :: "env \<Rightarrow> unit action" where
  "getNPoints env =
     andThen (getAcqMode env) (\<lambda>mode.
     andThen (getMemDepth env) (\<lambda>depth.
     andThen (attr nChannels) (\<lambda>nCh.
       case dataPointSwitch mode depth nCh of
         None \<Rightarrow> throw UnboundLocalError
       | Some n \<Rightarrow> (\<lambda>s. (Inr (), s\<lparr>nPoints := Some n\<rparr>)))))"

text \<open>
  \<^verbatim>\<open>getNumChannels\<close> (lines 239-253). The argument \<^verbatim>\<open>nChannels\<close> is not used. Both
  commands are \<^verbatim>\<open>:CHAN1:DISP?\<close>.
\<close>

definition getNumChannels :: "env \<Rightarrow> int action" where
  "getNumChannels env =
     andThen (scope_query env '':CHAN1:DISP?'') (\<lambda>ch1.
     andThen (scope_query env '':CHAN1:DISP?'') (\<lambda>ch2 s.
       let n = (if ch1 = ''ON'' \<and> ch2 = ''ON'' then 2
                else if ch1 = ''OFF'' \<and> ch2 = ''OFF'' then 0
                else 1)
       in (Inr n, s\<lparr>nChannels := Some n\<rparr>)))"

subsection \<open>The division tables (lines 439-475)\<close>

text \<open>The four dictionaries of \<^verbatim>\<open>getNDevs\<close>, keys and values in the order of the source.\<close>

definition devDict_normal_1 :: "(real \<times> real) list" where
  "devDict_normal_1 =
     [(50 / 10^3, 12), (20 / 10^3, 82), (10 / 10^3, 66), (5 / 10^3, 66),
      (2 / 10^3, 82), (1 / 10^3, 66), (500 / 10^6, 66), (200 / 10^6, 82), (100 / 10^6, 66),
      (50 / 10^6, 66), (20 / 10^6, 82), (10 / 10^6, 66), (5 / 10^6, 66), (2 / 10^6, 82)]"

definition devDict_normal_2 :: "(real \<times> real) list" where
  "devDict_normal_2 =
     [(50 / 10^3, 12), (20 / 10^3, 41), (10 / 10^3, 33), (5 / 10^3, 33),
      (2 / 10^3, 41), (1 / 10^3, 33), (500 / 10^6, 33), (200 / 10^6, 41), (100 / 10^6, 33),
      (50 / 10^6, 33), (20 / 10^6, 41), (10 / 10^6, 33), (5 / 10^6, 33), (2 / 10^6, 41)]"

definition devDict_long_1 :: "(real \<times> real) list" where
  "devDict_long_1 =
     [(500 / 10^3, 12), (200 / 10^3, 12), (100 / 10^3, 12), (50 / 10^3, 12), (20 / 10^3, 26),
      (10 / 10^3, 26), (5 / 10^3, 21), (2 / 10^3, 26), (1 / 10^3, 26),
      (500 / 10^6, 21), (200 / 10^6, 26), (100 / 10^6, 105 / 2), (50 / 10^6, 105),
      (20 / 10^6, 262), (10 / 10^6, 524), (5 / 10^6, 1048)]"

definition devDict_long_2 :: "(real \<times> real) list" where
  "devDict_long_2 =
     [(500 / 10^3, 12), (200 / 10^3, 12), (100 / 10^3, 12), (50 / 10^3, 12), (20 / 10^3, 26),
      (10 / 10^3, 26), (5 / 10^3, 21), (2 / 10^3, 26), (1 / 10^3, 26),
      (500 / 10^6, 21), (200 / 10^6, 26), (100 / 10^6, 105 / 2), (50 / 10^6, 105),
      (20 / 10^6, 262), (10 / 10^6, 524), (5 / 10^6, 1048)]"

text \<open>
  The branch of \<^verbatim>\<open>getNDevs\<close> that chooses the dictionary when the mode is not
  \<^verbatim>\<open>'NORMAL'\<close>: \<open>None\<close> is the local variable \<^verbatim>\<open>devDict\<close> left unbound (a channel count
  other than 1 and 2). Any depth other than \<^verbatim>\<open>'NORMAL'\<close> takes the \<^verbatim>\<open>else\<close> branch.
\<close>

definition devDict :: "string \<Rightarrow> int \<Rightarrow> (real \<times> real) list option" where
  "devDict depth nChan =
     (if depth = ''NORMAL'' then
        (if nChan = 1 then Some devDict_normal_1
         else if nChan = 2 then Some devDict_normal_2
         else None)
      else
        (if nChan = 1 then Some devDict_long_1
         else if nChan = 2 then Some devDict_long_2
         else None))"

text \<open>
  \<^verbatim>\<open>getNDevs\<close> (lines 423-482). With the mode \<^verbatim>\<open>'NORMAL'\<close> the result is 12 and no
  dictionary is used. Otherwise \<^verbatim>\<open>devDict[tDev]\<close> is evaluated inside \<^verbatim>\<open>try\<close>: an unbound
  \<^verbatim>\<open>devDict\<close> raises \<^verbatim>\<open>UnboundLocalError\<close>, which the handler does not catch; a missing
  key raises \<^verbatim>\<open>KeyError\<close>, which the handler catches and answers with a printed message,
  so that \<^verbatim>\<open>return nDev\<close> then finds \<^verbatim>\<open>nDev\<close> unbound and raises
  \<^verbatim>\<open>UnboundLocalError\<close>.
\<close>

definition getNDevs :: "env \<Rightarrow> real action" where
  "getNDevs env =
     andThen (getTScale env) (\<lambda>_.
     andThen (attr tScale) (\<lambda>tDev.
     andThen (getAcqMode env) (\<lambda>mode.
     andThen (getMemDepth env) (\<lambda>depth.
     andThen (attr nChannels) (\<lambda>nChan.
       if mode = ''NORMAL'' then ret 12
       else (case devDict depth nChan of
               None \<Rightarrow> throw UnboundLocalError
             | Some d \<Rightarrow>
                 (case map_of d tDev of
                    None \<Rightarrow> throw UnboundLocalError
                  | Some nDev \<Rightarrow> ret nDev)))))))"

subsection \<open>Reading data from the scope (lines 353-421, 485-503)\<close>

definition lift :: "error + 'a \<Rightarrow> 's \<Rightarrow> (error + 'a) \<times> 's" where
  "lift r s = (r, s)"

text \<open>
  \<^verbatim>\<open>np.arange(start, stop, step)\<close> on Python floats. The length is the ceiling of
  \<^verbatim>\<open>(stop - start) / step\<close>, computed on doubles (the division raises
  \<^verbatim>\<open>ZeroDivisionError\<close> for a zero step); no element when it is not positive, and
  \<^verbatim>\<open>OverflowError\<close> when it does not fit a machine integer. The first two elements are
  \<open>start\<close> and \<open>start + step\<close>, and the fill loop continues with \<open>start + i * delta\<close>, where
  \<open>delta\<close> is the difference of the first two.
\<close>

definition arange :: "real \<Rightarrow> real \<Rightarrow> real \<Rightarrow> error + real list" where
  "arange start stop step =
     (if step = 0 then Inl ZeroDivisionError
      else
        let len = \<lceil>fl (fl (stop - start) / step)\<rceil>;
            next = fl (start + step);
            delta = fl (next - start)
        in if 2 ^ 63 \<le> len then Inl OverflowError
           else Inr (map (\<lambda>i. if i = 0 then start
                               else if i = 1 then next
                               else fl (start + fl (real i * delta)))
                      [0..<nat len]))"

text \<open>
  \<^verbatim>\<open>getTimeVec\<close> (lines 485-503). \<^verbatim>\<open>self.tScale\<close> is read after \<^verbatim>\<open>getNDevs\<close>, which has
  queried it again. Every product, quotient and sum is one operation on doubles.
\<close>

definition getTimeVec :: "env \<Rightarrow> real list action" where
  "getTimeVec env =
     andThen (getNPoints env) (\<lambda>_.
     andThen (getTScale env) (\<lambda>_.
     andThen (getTOffset env) (\<lambda>_.
     andThen (attr nPoints) (\<lambda>nP.
     andThen (getNDevs env) (\<lambda>nDevs.
     andThen (attr tScale) (\<lambda>tS.
     andThen (attr tOffs) (\<lambda>tO.
       let nDataPoints = nP - 10 in
       if nDataPoints = 0 then throw ZeroDivisionError
       else
         let dt = fl (fl (tS * nDevs) / of_int nDataPoints) in
         andThen (lift (arange (fl (fl (- tS * nDevs) / 2)) (fl (fl (tS * nDevs) / 2)) dt))
           (\<lambda>timeVec. ret (map (\<lambda>x. fl (x + tO)) timeVec)))))))))"

text \<open>
  \<^verbatim>\<open>readTrace\<close> (lines 353-364): the command is written, at most \<^verbatim>\<open>self.nPoints\<close> bytes
  are read, and the first ten are dropped. The samples are the byte values, 0 to 255.
\<close>

definition readTrace :: "env \<Rightarrow> int \<Rightarrow> int list action" where
  "readTrace env channel =
     andThen (scope_write ('':WAV:DATA? CHAN'' @ pystr channel)) (\<lambda>_.
     andThen (attr nPoints) (\<lambda>nP.
     andThen (scope_read env (nat nP)) (\<lambda>rawdata.
       ret (map of_char (drop 10 rawdata)))))"

text \<open>
  The expression of \<^verbatim>\<open>rescaleToVolts\<close> (line 370) at one sample. On a \<^verbatim>\<open>uint8\<close> array
  \<^verbatim>\<open>data * -1\<close> is computed in \<^verbatim>\<open>int16\<close>, so nothing wraps for a byte value.
\<close>

definition Vdata_of :: "real \<Rightarrow> real \<Rightarrow> int \<Rightarrow> real" where
  "Vdata_of Voffs Vscale b =
     ((of_int (b * (- 1) + 255) - 130 - Voffs / Vscale * 25) / 25) * Vscale"

text \<open>
  \<^verbatim>\<open>rescaleToVolts\<close> (lines 366-371). \<^verbatim>\<open>Voffs\<close> and \<^verbatim>\<open>Vscale\<close> are Python floats, so
  \<^verbatim>\<open>Voffs/Vscale\<close> raises \<^verbatim>\<open>ZeroDivisionError\<close> for a zero scale.
\<close>

definition rescaleToVolts :: "env \<Rightarrow> int list \<Rightarrow> int \<Rightarrow> real list action" where
  "rescaleToVolts env data channel =
     andThen (getVOffset env channel) (\<lambda>Voffs.
     andThen (getVScale env channel) (\<lambda>Vscale.
       if Vscale = 0 then throw ZeroDivisionError
       else ret (map (Vdata_of Voffs Vscale) data)))"

text \<open>
  \<^verbatim>\<open>np.column_stack\<close> of one-dimensional arrays: a two-dimensional array, here the list of
  its rows, or \<^verbatim>\<open>ValueError\<close> when the lengths differ.
\<close>

definition column_stack :: "real list list \<Rightarrow> error + real list list" where
  "column_stack cols =
     (if list_all (\<lambda>c. length c = length (hd cols)) cols
      then Inr (map (\<lambda>i. map (\<lambda>c. c ! i) cols) [0..<length (hd cols)])
      else Inl ValueError)"

text \<open>
  \<^verbatim>\<open>readWaveform\<close> (lines 373-421). The argument \<open>channel\<close> is the string
  \<^verbatim>\<open>str(channel)\<close> of the first assignment; \<open>data2\<close> is \<open>[]\<close> where the source leaves it
  unassigned (it is then never used).
\<close>

definition readWaveform :: "env \<Rightarrow> string \<Rightarrow> bool \<Rightarrow> real list list action" where
  "readWaveform env channel stopping =
     andThen (getTimeVec env) (\<lambda>tData.
     andThen (if upper channel = ''BOTH'' then ret (1, True)
              else andThen (to_int env channel) (\<lambda>c. ret (c, False))) (\<lambda>(channel, bothChannels).
     andThen (attr nPoints) (\<lambda>nP.
     andThen (if 610 < nP \<and> stopping then scope_write '':STOP'' else ret ()) (\<lambda>_.
     andThen (readTrace env channel) (\<lambda>data.
     andThen (if bothChannels then readTrace env 2 else ret []) (\<lambda>data2.
     andThen (if 610 < nP then scope_write '':RUN'' else ret ()) (\<lambda>_.
     andThen (rescaleToVolts env data channel) (\<lambda>Vdata.
       if bothChannels then
         andThen (rescaleToVolts env data2 2) (\<lambda>Vdata2.
           lift (column_stack [tData, Vdata, Vdata2]))
       else lift (column_stack [tData, Vdata])))))))))"

text \<open>The commands a call has written: those in \<open>s'\<close> after the ones already in \<open>s\<close>.\<close>

definition issued :: "scope \<Rightarrow> scope \<Rightarrow> string list" where
  "issued s s' = drop (length (sent s)) (sent s')"

subsection \<open>An instrument with a fixed configuration\<close>

text \<open>
  An instrument whose reply depends on the command alone, \<open>answer\<close> giving the reply to each
  command; nothing is ready to be read before the first command.
\<close>

definition steady :: "(string \<Rightarrow> string) \<Rightarrow> (string \<Rightarrow> real option) \<Rightarrow> (string \<Rightarrow> int option) \<Rightarrow> env" where
  "steady answer pfloat pint =
     \<lparr>respond = (\<lambda>log. case log of [] \<Rightarrow> [] | _ # _ \<Rightarrow> answer (last log)),
      pyfloat = pfloat, pyint = pint\<rparr>"

text \<open>A fresh object: no attribute assigned, except the channel count where given.\<close>

definition fresh :: "int option \<Rightarrow> scope" where
  "fresh n = \<lparr>nChannels = n, nPoints = None, tScale = None, tOffs = None,
              acqMode = None, memDepth = None, sent = []\<rparr>"

subsection \<open>The waveform quantisers of \<^verbatim>\<open>GenerateArb.py\<close> (lines 17-37)\<close>

text \<open>
  \<^verbatim>\<open>bitrange*V\<close> and \<^verbatim>\<open>b/bitrange\<close> are operations on doubles, each rounded; \<^verbatim>\<open>np.round\<close>
  of a double is exact.
\<close>

definition bitrange :: real where
  "bitrange = 16383"

definition V2b :: "real \<Rightarrow> real" where
  "V2b V = of_int (np_round (fl (bitrange * V)))"

definition b2V :: "real \<Rightarrow> real" where
  "b2V b = fl (b / bitrange)"

subsection \<open>The arbitrary-waveform loader (lines 819-900 and 1036-1107)\<close>

text \<open>
  \<^verbatim>\<open>loadVolatile\<close> is the same sequence of statements in \<^verbatim>\<open>RigolDG1032TMC\<close> and in
  \<^verbatim>\<open>RigolDG1032\<close> (the pauses differ); one definition stands for both.

  A numpy division does not raise for a zero divisor: it gives \<^verbatim>\<open>nan\<close> or an infinity (and
  a warning). \<open>NotFinite\<close> is such a value; it stays one under multiplication and
  \<^verbatim>\<open>np.round\<close>, and \<^verbatim>\<open>astype(int)\<close> gives it no defined integer (\<open>None\<close>).
\<close>

datatype float64 = Finite real | NotFinite

definition np_divide :: "real \<Rightarrow> real \<Rightarrow> float64" where
  "np_divide x y = (if y = 0 then NotFinite else Finite (x / y))"

definition np_times :: "float64 \<Rightarrow> real \<Rightarrow> float64" where
  "np_times x k = (case x of Finite r \<Rightarrow> Finite (r * k) | NotFinite \<Rightarrow> NotFinite)"

text \<open>\<^verbatim>\<open>np.round(x).astype(int)\<close> at one element.\<close>

definition round_astype_int :: "float64 \<Rightarrow> int option" where
  "round_astype_int x = (case x of Finite r \<Rightarrow> Some (np_round r) | NotFinite \<Rightarrow> None)"

text \<open>\<^verbatim>\<open>np.round(x, 3)\<close>.\<close>

definition np_round3 :: "real \<Rightarrow> real" where
  "np_round3 x = of_int (np_round (x * 1000)) / 1000"

text \<open>\<^verbatim>\<open>int(round(x))\<close> in Python 2: a tie is rounded away from zero.\<close>

definition int_round :: "real \<Rightarrow> int" where
  "int_round x = (if 0 \<le> x then \<lfloor>x + 1 / 2\<rfloor> else \<lceil>x - 1 / 2\<rceil>)"

text \<open>
  The commands of the loader, by their arguments (the text of a command prints floats, which
  is not modelled):
  \<^item> \<open>ApplArb channel samplerate ampl offs\<close> is \<^verbatim>\<open>:SOURCE<channel>:APPL:ARB <samplerate>,<ampl>,<offs>\<close>;
  \<^item> \<open>TraceDataPoints channel n\<close> is \<^verbatim>\<open>:SOUR<channel>:TRACE:DATA:POIN VOLATILE,<n>\<close>;
  \<^item> \<open>DataVal channel n val\<close> is \<^verbatim>\<open>:SOUR<channel>:DATA:VAL VOLATILE,<n>,<val>\<close>.
\<close>

datatype gen_command =
    ApplArb int int real real
  | TraceDataPoints int nat
  | DataVal int nat "int option"

record generator =
  gsent :: "gen_command list"

definition gen_write :: "gen_command \<Rightarrow> (generator, unit) call" where
  "gen_write command g = (Inr (), g\<lparr>gsent := gsent g @ [command]\<rparr>)"

definition setArbitrary :: "int \<Rightarrow> int \<Rightarrow> real \<Rightarrow> real \<Rightarrow> (generator, unit) call" where
  "setArbitrary channel samplerate ampl offs = gen_write (ApplArb channel samplerate ampl offs)"

definition setVolatilePoints :: "nat \<Rightarrow> int \<Rightarrow> (generator, unit) call" where
  "setVolatilePoints n channel = gen_write (TraceDataPoints channel n)"

definition setVolatileVal :: "nat \<Rightarrow> int option \<Rightarrow> int \<Rightarrow> (generator, unit) call" where
  "setVolatileVal n val channel = gen_write (DataVal channel n val)"

text \<open>The first statements of \<^verbatim>\<open>loadVolatile\<close>, on a non-empty \<open>V\<close> (lines 868-877).\<close>

definition VAmpl_of :: "real list \<Rightarrow> real" where
  "VAmpl_of V = Max (set V) - Min (set V)"

definition VOffs_of :: "real list \<Rightarrow> real" where
  "VOffs_of V = (Max (set V) + Min (set V)) / 2"

definition rescaled :: "real list \<Rightarrow> float64 list" where
  "rescaled V = map (\<lambda>v. np_divide (1 * (v - Min (set V))) (VAmpl_of V)) V"

definition val_list :: "real list \<Rightarrow> int \<Rightarrow> int option list" where
  "val_list V pointRange =
     map (\<lambda>x. round_astype_int (np_times x (of_int pointRange))) (rescaled V)"

text \<open>The loop \<^verbatim>\<open>for num, val in enumerate(val_list, start=1)\<close>.\<close>

fun upload :: "int \<Rightarrow> nat \<Rightarrow> int option list \<Rightarrow> (generator, unit) call" where
  "upload channel num [] g = (Inr (), g)"
| "upload channel num (val # vals) g =
     andThen (setVolatileVal num val channel) (\<lambda>_. upload channel (Suc num) vals) g"

text \<open>
  \<^verbatim>\<open>loadVolatile\<close>. \<^verbatim>\<open>V.max()\<close> raises \<^verbatim>\<open>ValueError\<close> on an empty array, \<^verbatim>\<open>t[1]\<close> raises
  \<^verbatim>\<open>IndexError\<close> on fewer than two time points, and for equal first time points \<^verbatim>\<open>1/dt\<close>
  is infinite, which \<^verbatim>\<open>int\<close> refuses with \<^verbatim>\<open>OverflowError\<close>. Unequal lengths of \<open>t\<close> and
  \<open>V\<close> are answered with a printed message only.
\<close>

definition loadVolatile :: "real list \<Rightarrow> real list \<Rightarrow> int \<Rightarrow> int \<Rightarrow> (generator, unit) call" where
  "loadVolatile t V channel pointRange =
     (if V = [] then throw ValueError
      else
        let VAmpl = np_round3 (VAmpl_of V);
            VOffs = np_round3 (VOffs_of V);
            vals = val_list V pointRange;
            nPoints = length t
        in if length t < 2 then throw IndexError
           else
             let dt = t ! 1 - t ! 0
             in if dt = 0 then throw OverflowError
                else
                  let sRate = int_round (1 / dt)
                  in andThen (setArbitrary channel sRate VAmpl VOffs) (\<lambda>_.
                     andThen (setVolatilePoints nPoints channel) (\<lambda>_.
                       upload channel 1 vals)))"

subsection \<open>Concrete instruments\<close>

text \<open>A table of replies, and the few number texts the examples use.\<close>

definition table_answer :: "(string \<times> string) list \<Rightarrow> string \<Rightarrow> string" where
  "table_answer tbl c = (case map_of tbl c of None \<Rightarrow> [] | Some r \<Rightarrow> r)"

definition demo_float :: "string \<Rightarrow> real option" where
  "demo_float = map_of [(''0'', 0), (''1'', 1), (''0.05'', 5 / 100), (''0.003'', 3 / 1000)]"

definition demo_int :: "string \<Rightarrow> int option" where
  "demo_int = map_of [(''1'', 1), (''2'', 2)]"

text \<open>Acquisition mode \<^verbatim>\<open>NORMAL\<close>: 610 bytes per trace.\<close>

definition normal_table :: "(string \<times> string) list" where
  "normal_table =
     [('':WAV:POINTS:MODE?'', ''NORMAL''), ('':ACQ:MEMDEPTH?'', ''LONG''),
      ('':TIM:SCAL?'', ''1''), ('':TIM:OFFS?'', ''0''),
      ('':WAV:DATA? CHAN1'', replicate 610 (CHR 0x82)),
      ('':WAV:DATA? CHAN2'', replicate 610 (CHR 0x7D)),
      ('':CHAN1:OFFS?'', ''0''), ('':CHAN1:SCAL?'', ''1''),
      ('':CHAN2:OFFS?'', ''1''), ('':CHAN2:SCAL?'', ''0.05''),
      ('':CHAN1:DISP?'', ''ON'')]"

definition normal_scope :: env where
  "normal_scope = steady (table_answer normal_table) demo_float demo_int"

text \<open>Acquisition mode \<^verbatim>\<open>RAW\<close>, normal memory depth, 50 ms per division.\<close>

definition raw_table :: "(string \<times> string) list" where
  "raw_table =
     [('':WAV:POINTS:MODE?'', ''RAW''), ('':ACQ:MEMDEPTH?'', ''NORMAL''),
      ('':TIM:SCAL?'', ''0.05''), ('':TIM:OFFS?'', ''0''),
      ('':WAV:DATA? CHAN1'', replicate 8202 (CHR 0x82)),
      ('':WAV:DATA? CHAN2'', replicate 8202 (CHR 0x7D)),
      ('':CHAN1:OFFS?'', ''0''), ('':CHAN1:SCAL?'', ''1''),
      ('':CHAN2:OFFS?'', ''1''), ('':CHAN2:SCAL?'', ''0.05''),
      ('':CHAN1:DISP?'', ''1'')]"

definition raw_scope :: env where
  "raw_scope = steady (table_answer raw_table) demo_float demo_int"

text \<open>Acquisition mode \<^verbatim>\<open>RAW\<close>, long memory depth, 3 ms per division.\<close>

definition long_table :: "(string \<times> string) list" where
  "long_table =
     [('':WAV:POINTS:MODE?'', ''RAW''), ('':ACQ:MEMDEPTH?'', ''LONG''),
      ('':TIM:SCAL?'', ''0.003''), ('':TIM:OFFS?'', ''0'')]"

definition long_scope :: env where
  "long_scope = steady (table_answer long_table) demo_float demo_int"

section \<open>Properties\<close>

subsection \<open>Evaluation of the calls\<close>

text \<open>The equation of \<open>digits\<close> would loop as a rewrite rule.\<close>

declare digits.simps [simp del]


lemma pystr_2: "pystr 2 = ''2''"
  by code_simp

lemma andThen_Inr: "m s = (Inr x, s1) \<Longrightarrow> andThen m f s = f x s1"
  by (simp add: andThen_def)

lemma andThen_Inl: "m s = (Inl e, s1) \<Longrightarrow> andThen m f s = (Inl e, s1)"
  by (simp add: andThen_def)

lemma andThen_InrD:
  "andThen m f s = (Inr y, s') \<Longrightarrow> \<exists>x s1. m s = (Inr x, s1) \<and> f x s1 = (Inr y, s')"
  by (auto simp: andThen_def split: prod.splits sum.splits)

lemma steady_respond: "respond (steady a pf pin) (cmds @ c # cs) = a (last (c # cs))"
  by (cases cmds) (simp_all add: steady_def)

lemma steady_respond_Cons: "respond (steady a pf pin) (c # cs) = a (last (c # cs))"
  by (simp add: steady_def)

lemma steady_pyfloat: "pyfloat (steady a pf pin) = pf"
  by (simp add: steady_def)

lemma steady_pyint: "pyint (steady a pf pin) = pin"
  by (simp add: steady_def)

lemma scope_query_eq:
  "scope_query env command s =
     (Inr (take 100 (respond env (sent s @ [command]))), s\<lparr>sent := sent s @ [command]\<rparr>)"
  by (simp add: scope_query_def andThen_def scope_write_def scope_read_def)

lemma getAcqMode_eq:
  "getAcqMode env s =
     (Inr (take 100 (respond env (sent s @ ['':WAV:POINTS:MODE?'']))),
      s\<lparr>sent := sent s @ ['':WAV:POINTS:MODE?''],
        acqMode := Some (take 100 (respond env (sent s @ ['':WAV:POINTS:MODE?''])))\<rparr>)"
  by (simp add: getAcqMode_def andThen_def scope_query_eq)

lemma getMemDepth_eq:
  "getMemDepth env s =
     (Inr (take 100 (respond env (sent s @ ['':ACQ:MEMDEPTH?'']))),
      s\<lparr>sent := sent s @ ['':ACQ:MEMDEPTH?''],
        memDepth := Some (take 100 (respond env (sent s @ ['':ACQ:MEMDEPTH?''])))\<rparr>)"
  by (simp add: getMemDepth_def andThen_def scope_query_eq)

lemma getTScale_eq:
  "getTScale env s =
     (case pyfloat env (take 100 (respond env (sent s @ ['':TIM:SCAL?'']))) of
        None \<Rightarrow> (Inl ValueError, s\<lparr>sent := sent s @ ['':TIM:SCAL?'']\<rparr>)
      | Some x \<Rightarrow> (Inr (), s\<lparr>sent := sent s @ ['':TIM:SCAL?''], tScale := Some x\<rparr>))"
  by (simp add: getTScale_def andThen_def scope_query_eq to_float_def throw_def ret_def
      split: option.splits)

lemma getTOffset_eq:
  "getTOffset env s =
     (case pyfloat env (take 100 (respond env (sent s @ ['':TIM:OFFS?'']))) of
        None \<Rightarrow> (Inl ValueError, s\<lparr>sent := sent s @ ['':TIM:OFFS?'']\<rparr>)
      | Some x \<Rightarrow> (Inr x, s\<lparr>sent := sent s @ ['':TIM:OFFS?''], tOffs := Some x\<rparr>))"
  by (simp add: getTOffset_def andThen_def scope_query_eq to_float_def throw_def ret_def
      split: option.splits)

lemma getVOffset_eq:
  "getVOffset env channel s =
     (case pyfloat env (take 100 (respond env (sent s @ ['':CHAN'' @ pystr channel @ '':OFFS?'']))) of
        None \<Rightarrow> (Inl ValueError, s\<lparr>sent := sent s @ ['':CHAN'' @ pystr channel @ '':OFFS?'']\<rparr>)
      | Some x \<Rightarrow> (Inr x, s\<lparr>sent := sent s @ ['':CHAN'' @ pystr channel @ '':OFFS?'']\<rparr>))"
  by (simp add: getVOffset_def andThen_def scope_query_eq to_float_def throw_def ret_def
      split: option.splits)

lemma getVScale_eq:
  "getVScale env channel s =
     (case pyfloat env (take 100 (respond env (sent s @ ['':CHAN'' @ pystr channel @ '':SCAL?'']))) of
        None \<Rightarrow> (Inl ValueError, s\<lparr>sent := sent s @ ['':CHAN'' @ pystr channel @ '':SCAL?'']\<rparr>)
      | Some x \<Rightarrow> (Inr x, s\<lparr>sent := sent s @ ['':CHAN'' @ pystr channel @ '':SCAL?'']\<rparr>))"
  by (simp add: getVScale_def andThen_def scope_query_eq to_float_def throw_def ret_def
      split: option.splits)

lemma getNPoints_eq:
  "getNPoints env s =
     (let mode = take 100 (respond env (sent s @ ['':WAV:POINTS:MODE?'']));
          depth = take 100 (respond env (sent s @ ['':WAV:POINTS:MODE?'', '':ACQ:MEMDEPTH?'']));
          s2 = s\<lparr>sent := sent s @ ['':WAV:POINTS:MODE?'', '':ACQ:MEMDEPTH?''],
                 acqMode := Some mode, memDepth := Some depth\<rparr>
      in case nChannels s of
           None \<Rightarrow> (Inl AttributeError, s2)
         | Some nCh \<Rightarrow>
             (case dataPointSwitch mode depth nCh of
                None \<Rightarrow> (Inl UnboundLocalError, s2)
              | Some n \<Rightarrow> (Inr (), s2\<lparr>nPoints := Some n\<rparr>)))"
  by (simp add: getNPoints_def andThen_def getAcqMode_eq getMemDepth_eq attr_def throw_def Let_def
      split: option.splits)

lemma getNDevs_eq:
  "getNDevs env s =
     (let q1 = sent s @ ['':TIM:SCAL?''];
          q2 = q1 @ ['':WAV:POINTS:MODE?''];
          q3 = q2 @ ['':ACQ:MEMDEPTH?''];
          mode = take 100 (respond env q2);
          depth = take 100 (respond env q3)
      in case pyfloat env (take 100 (respond env q1)) of
           None \<Rightarrow> (Inl ValueError, s\<lparr>sent := q1\<rparr>)
         | Some tDev \<Rightarrow>
             (let s3 = s\<lparr>sent := q3, tScale := Some tDev, acqMode := Some mode,
                          memDepth := Some depth\<rparr>
              in case nChannels s of
                   None \<Rightarrow> (Inl AttributeError, s3)
                 | Some nChan \<Rightarrow>
                     if mode = ''NORMAL'' then (Inr 12, s3)
                     else (case devDict depth nChan of
                             None \<Rightarrow> (Inl UnboundLocalError, s3)
                           | Some d \<Rightarrow>
                               (case map_of d tDev of
                                  None \<Rightarrow> (Inl UnboundLocalError, s3)
                                | Some nDev \<Rightarrow> (Inr nDev, s3)))))"
  by (simp add: getNDevs_def andThen_def getTScale_eq getAcqMode_eq getMemDepth_eq attr_def
      throw_def ret_def Let_def split: option.splits)

subsection \<open>Sample count and division count\<close>

text \<open>
  C2: on an instrument whose acquisition mode is \<^verbatim>\<open>NORMAL\<close>, whatever its memory depth and
  whatever the channel count \<open>nCh\<close> of the object, \<open>getNPoints\<close> returns and stores the
  sample count 610 (600 data bytes and 10 header bytes), and \<open>getNDevs\<close> returns 12.
\<close>

theorem NORMAL_mode_counts:
  assumes "take 100 (answer '':WAV:POINTS:MODE?'') = ''NORMAL''"
    and "nChannels s = Some nCh"
    and "pfloat (take 100 (answer '':TIM:SCAL?'')) = Some tDev"
  shows "fst (getNPoints (steady answer pfloat pint) s) = Inr ()
       \<and> nPoints (snd (getNPoints (steady answer pfloat pint) s)) = Some 610
       \<and> fst (getNDevs (steady answer pfloat pint) s) = Inr 12"
  using assms
  by (simp add: getNPoints_eq getNDevs_eq steady_respond steady_pyfloat dataPointSwitch_def Let_def)


theorem NORMAL_mode_counts_witness:
  "take 100 (table_answer normal_table '':WAV:POINTS:MODE?'') = ''NORMAL''
   \<and> nChannels (fresh (Some 2)) = Some 2
   \<and> demo_float (take 100 (table_answer normal_table '':TIM:SCAL?'')) = Some 1
   \<and> fst (getNPoints normal_scope (fresh (Some 2))) = Inr ()
   \<and> nPoints (snd (getNPoints normal_scope (fresh (Some 2)))) = Some 610
   \<and> fst (getNDevs normal_scope (fresh (Some 2))) = Inr 12"
proof -
  have h1: "take 100 (table_answer normal_table '':WAV:POINTS:MODE?'') = ''NORMAL''"
    by (simp add: table_answer_def normal_table_def)
  have h2: "nChannels (fresh (Some 2)) = Some 2"
    by (simp add: fresh_def)
  have h3: "demo_float (take 100 (table_answer normal_table '':TIM:SCAL?'')) = Some 1"
    by (simp add: table_answer_def normal_table_def demo_float_def)
  from NORMAL_mode_counts [where answer = "table_answer normal_table" and pfloat = demo_float
      and pint = demo_int, OF h1 h2 h3] h1 h2 h3
  show ?thesis
    by (simp only: normal_scope_def simp_thms)
qed

text \<open>
  C4 (as the code has it): when the triple of mode, depth and channel count matches none of
  the five cases, \<open>getNPoints\<close> does not store a count and does not return: Python's
  \<^verbatim>\<open>UnboundLocalError\<close> reaches the caller, not an explicit \<open>UnsupportedConfiguration\<close>
  error. For a matching triple the stored count is 610, 8202, 16394, 524298 or 1048586.
\<close>

theorem getNPoints_resolution:
  assumes "nChannels s = Some nCh"
    and "mode = take 100 (answer '':WAV:POINTS:MODE?'')"
    and "depth = take 100 (answer '':ACQ:MEMDEPTH?'')"
    and "r = getNPoints (steady answer pfloat pint) s"
  shows "if mode = ''NORMAL'' \<or> (depth = ''NORMAL'' \<or> depth = ''LONG'') \<and> (nCh = 1 \<or> nCh = 2)
         then fst r = Inr () \<and>
              (\<exists>n. nPoints (snd r) = Some n \<and> n \<in> {610, 8202, 16394, 524298, 1048586})
         else fst r = Inl UnboundLocalError \<and> nPoints (snd r) = nPoints s"
  using assms
  by (auto simp add: getNPoints_eq steady_respond dataPointSwitch_def Let_def)

text \<open>
  With mode \<^verbatim>\<open>RAW\<close>, depth \<^verbatim>\<open>NORMAL\<close> and no channel displayed (the count 0 that
  \<open>getNumChannels\<close> can store) the error is \<^verbatim>\<open>UnboundLocalError\<close>.
\<close>

theorem getNPoints_unmatched_counterexample:
  "fst (getNPoints raw_scope (fresh (Some 0))) = Inl UnboundLocalError
   \<and> fst (getNPoints raw_scope (fresh (Some 0))) \<noteq> Inl UnsupportedConfiguration
   \<and> nPoints (snd (getNPoints raw_scope (fresh (Some 0)))) = None"
  by (simp add: getNPoints_eq raw_scope_def steady_respond steady_respond_Cons
      dataPointSwitch_def Let_def table_answer_def raw_table_def fresh_def)

theorem getNPoints_resolution_witness:
  "nChannels (fresh (Some 3)) = Some 3
   \<and> fst (getNPoints raw_scope (fresh (Some 3))) = Inl UnboundLocalError
   \<and> nPoints (snd (getNPoints raw_scope (fresh (Some 3)))) = None
   \<and> nChannels (fresh (Some 2)) = Some 2
   \<and> fst (getNPoints raw_scope (fresh (Some 2))) = Inr ()
   \<and> nPoints (snd (getNPoints raw_scope (fresh (Some 2)))) = Some 8202"
proof -
  have m: "take 100 (table_answer raw_table '':WAV:POINTS:MODE?'') = ''RAW''"
    and d: "take 100 (table_answer raw_table '':ACQ:MEMDEPTH?'') = ''NORMAL''"
    by (simp_all add: table_answer_def raw_table_def)
  have h3: "nChannels (fresh (Some 3)) = Some 3" and h2: "nChannels (fresh (Some 2)) = Some 2"
    by (simp_all add: fresh_def)
  have n3: "nPoints (fresh (Some 3)) = None"
    by (simp add: fresh_def)
  from getNPoints_resolution [where answer = "table_answer raw_table" and pfloat = demo_float
      and pint = demo_int, OF h3 m [symmetric] d [symmetric] refl]
  have a: "fst (getNPoints raw_scope (fresh (Some 3))) = Inl UnboundLocalError
           \<and> nPoints (snd (getNPoints raw_scope (fresh (Some 3)))) = None"
    by (simp add: raw_scope_def n3)
  from getNPoints_resolution [where answer = "table_answer raw_table" and pfloat = demo_float
      and pint = demo_int, OF h2 m [symmetric] d [symmetric] refl]
  have b: "fst (getNPoints raw_scope (fresh (Some 2))) = Inr ()"
    by (simp add: raw_scope_def)
  have c: "nPoints (snd (getNPoints raw_scope (fresh (Some 2)))) = Some 8202"
    by (simp add: getNPoints_eq raw_scope_def steady_respond steady_respond_Cons
      dataPointSwitch_def Let_def table_answer_def raw_table_def fresh_def)
  from a b c h2 h3 show ?thesis by simp
qed

subsection \<open>Channel count\<close>

lemma getNumChannels_eq:
  "getNumChannels env s =
     (let ch1 = take 100 (respond env (sent s @ ['':CHAN1:DISP?'']));
          ch2 = take 100 (respond env (sent s @ ['':CHAN1:DISP?'', '':CHAN1:DISP?'']));
          n = (if ch1 = ''ON'' \<and> ch2 = ''ON'' then 2
               else if ch1 = ''OFF'' \<and> ch2 = ''OFF'' then 0 else 1)
      in (Inr n, s\<lparr>sent := sent s @ ['':CHAN1:DISP?'', '':CHAN1:DISP?''], nChannels := Some n\<rparr>))"
  by (simp add: getNumChannels_def andThen_def scope_query_eq Let_def)

text \<open>
  C9 (as the code has it): both queries of \<open>getNumChannels\<close> are \<^verbatim>\<open>:CHAN1:DISP?\<close>; when
  both replies are the same string, the count returned and stored is 2 for \<^verbatim>\<open>ON\<close>, 0 for
  \<^verbatim>\<open>OFF\<close>, and 1 for every other reply. So the count is never 1 when the common reply
  is \<^verbatim>\<open>ON\<close> or \<^verbatim>\<open>OFF\<close>; channel 2 is never asked.
\<close>

theorem getNumChannels_same_reply:
  assumes "ch1 = take 100 (respond env (sent s @ ['':CHAN1:DISP?'']))"
    and "ch2 = take 100 (respond env (sent s @ ['':CHAN1:DISP?'', '':CHAN1:DISP?'']))"
    and "ch1 = ch2"
    and "n = (if ch1 = ''ON'' then 2 else if ch1 = ''OFF'' then 0 else 1)"
  shows "fst (getNumChannels env s) = Inr n
       \<and> nChannels (snd (getNumChannels env s)) = Some n
       \<and> issued s (snd (getNumChannels env s)) = ['':CHAN1:DISP?'', '':CHAN1:DISP?'']"
  using assms
  by (simp add: getNumChannels_eq Let_def issued_def)

text \<open>An instrument that answers \<^verbatim>\<open>1\<close> both times: the count is 1.\<close>

theorem getNumChannels_counterexample:
  "take 100 (respond raw_scope ['':CHAN1:DISP?''])
     = take 100 (respond raw_scope ['':CHAN1:DISP?'', '':CHAN1:DISP?''])
   \<and> fst (getNumChannels raw_scope (fresh None)) = Inr 1
   \<and> nChannels (snd (getNumChannels raw_scope (fresh None))) = Some 1"
  by (simp add: getNumChannels_eq Let_def raw_scope_def steady_def table_answer_def
      raw_table_def fresh_def)

theorem getNumChannels_same_reply_witness:
  "take 100 (respond normal_scope (sent (fresh None) @ ['':CHAN1:DISP?''])) = ''ON''
   \<and> take 100 (respond normal_scope (sent (fresh None) @ ['':CHAN1:DISP?'', '':CHAN1:DISP?''])) = ''ON''
   \<and> fst (getNumChannels normal_scope (fresh None)) = Inr 2
   \<and> nChannels (snd (getNumChannels normal_scope (fresh None))) = Some 2
   \<and> issued (fresh None) (snd (getNumChannels normal_scope (fresh None)))
       = ['':CHAN1:DISP?'', '':CHAN1:DISP?'']"
proof -
  have a: "''ON'' = take 100 (respond normal_scope (sent (fresh None) @ ['':CHAN1:DISP?'']))"
    and b: "''ON'' = take 100 (respond normal_scope (sent (fresh None) @ ['':CHAN1:DISP?'', '':CHAN1:DISP?'']))"
    by (simp_all add: normal_scope_def steady_def table_answer_def normal_table_def fresh_def)
  have n: "(2::int) = (if ''ON'' = ''ON'' then 2 else if ''ON'' = ''OFF'' then 0 else 1)"
    by simp
  from getNumChannels_same_reply [OF a b refl n] a b show ?thesis
    by simp
qed

subsection \<open>Rescaling to volts\<close>

lemma rescaleToVolts_eq:
  "rescaleToVolts env data channel s =
     (case getVOffset env channel s of
        (Inl e, s1) \<Rightarrow> (Inl e, s1)
      | (Inr Voffs, s1) \<Rightarrow>
          (case getVScale env channel s1 of
             (Inl e, s2) \<Rightarrow> (Inl e, s2)
           | (Inr Vscale, s2) \<Rightarrow>
               if Vscale = 0 then (Inl ZeroDivisionError, s2)
               else (Inr (map (Vdata_of Voffs Vscale) data), s2)))"
  by (simp add: rescaleToVolts_def andThen_def throw_def ret_def split: prod.splits sum.splits)



subsection \<open>The commands written by the time-axis computation\<close>

text \<open>
  A call extends the list of written commands; \<open>Q\<close> bounds the commands it adds, whether it
  returns or raises.
\<close>

lemma andThen_sent:
  assumes "\<And>s. \<exists>new. sent (snd (m s)) = sent s @ new \<and> set new \<subseteq> Q"
    and "\<And>x s. \<exists>new. sent (snd (f x s)) = sent s @ new \<and> set new \<subseteq> Q"
  shows "\<exists>new. sent (snd (andThen m f s)) = sent s @ new \<and> set new \<subseteq> Q"
proof (cases "m s")
  case (Pair r s1)
  from assms(1) [of s] Pair obtain new1 where n1: "sent s1 = sent s @ new1" "set new1 \<subseteq> Q"
    by auto
  show ?thesis
  proof (cases r)
    case (Inl e)
    with Pair n1 show ?thesis by (auto simp: andThen_def)
  next
    case (Inr x)
    from assms(2) [of x s1] obtain new2
      where n2: "sent (snd (f x s1)) = sent s1 @ new2" "set new2 \<subseteq> Q"
      by auto
    from Pair Inr have "andThen m f s = f x s1" by (simp add: andThen_def)
    with n1 n2 have "sent (snd (andThen m f s)) = sent s @ (new1 @ new2) \<and> set (new1 @ new2) \<subseteq> Q"
      by simp
    then show ?thesis by blast
  qed
qed

lemma pure_sent:
  "\<exists>new. sent (snd (ret x s)) = sent s @ new \<and> set new \<subseteq> Q"
  "\<exists>new. sent (snd (throw e s)) = sent s @ new \<and> set new \<subseteq> Q"
  "\<exists>new. sent (snd (lift r s)) = sent s @ new \<and> set new \<subseteq> Q"
  "\<exists>new. sent (snd (attr fld s)) = sent s @ new \<and> set new \<subseteq> Q"
  by (simp_all add: ret_def throw_def lift_def attr_def split: option.splits)

lemma getTScale_sent:
  "'':TIM:SCAL?'' \<in> Q \<Longrightarrow> \<exists>new. sent (snd (getTScale env s)) = sent s @ new \<and> set new \<subseteq> Q"
  by (simp add: getTScale_eq split: option.splits)

lemma getTOffset_sent:
  "'':TIM:OFFS?'' \<in> Q \<Longrightarrow> \<exists>new. sent (snd (getTOffset env s)) = sent s @ new \<and> set new \<subseteq> Q"
  by (simp add: getTOffset_eq split: option.splits)

lemma getNPoints_sent:
  "'':WAV:POINTS:MODE?'' \<in> Q \<Longrightarrow> '':ACQ:MEMDEPTH?'' \<in> Q \<Longrightarrow>
   \<exists>new. sent (snd (getNPoints env s)) = sent s @ new \<and> set new \<subseteq> Q"
  by (simp add: getNPoints_eq Let_def split: option.splits)

lemma getNDevs_sent:
  "'':WAV:POINTS:MODE?'' \<in> Q \<Longrightarrow> '':ACQ:MEMDEPTH?'' \<in> Q \<Longrightarrow> '':TIM:SCAL?'' \<in> Q \<Longrightarrow>
   \<exists>new. sent (snd (getNDevs env s)) = sent s @ new \<and> set new \<subseteq> Q"
  by (simp add: getNDevs_eq Let_def split: option.splits)

lemma timeVec_tail_sent:
  "\<exists>new. sent (snd ((let nDataPoints = nP - 10 in
       if nDataPoints = 0 then throw ZeroDivisionError
       else
         let dt = fl (fl (tS * nDevs) / of_int nDataPoints) in
         andThen (lift (arange (fl (fl (- tS * nDevs) / 2)) (fl (fl (tS * nDevs) / 2)) dt))
           (\<lambda>timeVec. ret (map (\<lambda>x. fl (x + tO)) timeVec))) s)) = sent s @ new \<and> set new \<subseteq> Q"
  by (simp add: Let_def throw_def andThen_def lift_def ret_def split: sum.splits)

lemma getTimeVec_sent:
  "\<exists>new. sent (snd (getTimeVec env s)) = sent s @ new
      \<and> set new \<subseteq> {'':WAV:POINTS:MODE?'', '':ACQ:MEMDEPTH?'', '':TIM:SCAL?'', '':TIM:OFFS?''}"
  unfolding getTimeVec_def
  apply (rule andThen_sent)
   apply (rule getNPoints_sent; simp)
  apply (rule andThen_sent)
   apply (rule getTScale_sent; simp)
  apply (rule andThen_sent)
   apply (rule getTOffset_sent; simp)
  apply (rule andThen_sent)
   apply (rule pure_sent)
  apply (rule andThen_sent)
   apply (rule getNDevs_sent; simp)
  apply (rule andThen_sent)
   apply (rule pure_sent)
  apply (rule andThen_sent)
   apply (rule pure_sent)
  apply (rule timeVec_tail_sent)
  done


subsection \<open>A time/division value without table entry\<close>

lemma issued_append: "sent s' = sent s @ new \<Longrightarrow> issued s s' = new"
  by (simp add: issued_def)

lemma readWaveform_sent_of_failure:
  assumes "isl (fst (getTimeVec env s))"
  shows "isl (fst (readWaveform env channel stopping s))
       \<and> set (issued s (snd (readWaveform env channel stopping s)))
           \<subseteq> {'':WAV:POINTS:MODE?'', '':ACQ:MEMDEPTH?'', '':TIM:SCAL?'', '':TIM:OFFS?''}"
proof -
  from assms obtain e s1 where f: "getTimeVec env s = (Inl e, s1)"
    by (cases "getTimeVec env s") (auto simp: isl_def)
  then have r: "readWaveform env channel stopping s = (Inl e, s1)"
    unfolding readWaveform_def by (rule andThen_Inl)
  from getTimeVec_sent [of env s] f obtain new
    where "sent s1 = sent s @ new"
      and "set new \<subseteq> {'':WAV:POINTS:MODE?'', '':ACQ:MEMDEPTH?'', '':TIM:SCAL?'', '':TIM:OFFS?''}"
    by auto
  with r show ?thesis
    by (simp add: issued_append)
qed

lemma getTimeVec_missing_entry:
  assumes "nChannels s = Some nChan"
    and "take 100 (answer '':WAV:POINTS:MODE?'') \<noteq> ''NORMAL''"
    and "devDict (take 100 (answer '':ACQ:MEMDEPTH?'')) nChan = Some d"
    and "pfloat (take 100 (answer '':TIM:SCAL?'')) = Some tDev"
    and "map_of d tDev = None"
  shows "isl (fst (getTimeVec (steady answer pfloat pint) s))"
  using assms
  by (simp add: getTimeVec_def andThen_def getNPoints_eq getTScale_eq getTOffset_eq getNDevs_eq
      attr_def steady_respond steady_pyfloat Let_def split: option.splits)

text \<open>
  On an instrument whose mode is not \<^verbatim>\<open>NORMAL\<close> and whose time/division \<open>tDev\<close> has no
  entry in the dictionary \<open>d\<close> chosen for its depth and the channel count, \<open>getNDevs\<close>
  returns no division count, and \<open>readWaveform\<close> raises having written setting queries only:
  no \<^verbatim>\<open>:STOP\<close>, no \<^verbatim>\<open>:WAV:DATA?\<close> and no \<^verbatim>\<open>:RUN\<close>.
\<close>

lemma missing_division_entry:
  assumes "nChannels s = Some nChan"
    and "take 100 (answer '':WAV:POINTS:MODE?'') \<noteq> ''NORMAL''"
    and "devDict (take 100 (answer '':ACQ:MEMDEPTH?'')) nChan = Some d"
    and "pfloat (take 100 (answer '':TIM:SCAL?'')) = Some tDev"
    and "map_of d tDev = None"
    and "env = steady answer pfloat pint"
  shows "fst (getNDevs env s) = Inl UnboundLocalError
       \<and> isl (fst (readWaveform env channel stopping s))
       \<and> set (issued s (snd (readWaveform env channel stopping s)))
           \<subseteq> {'':WAV:POINTS:MODE?'', '':ACQ:MEMDEPTH?'', '':TIM:SCAL?'', '':TIM:OFFS?''}"
proof -
  have "fst (getNDevs env s) = Inl UnboundLocalError"
    using assms by (simp add: getNDevs_eq steady_respond steady_pyfloat Let_def)
  moreover have "isl (fst (getTimeVec env s))"
    unfolding assms(6) using assms(1-5) by (rule getTimeVec_missing_entry)
  ultimately show ?thesis
    using readWaveform_sent_of_failure [of env s channel stopping] by simp
qed

text \<open>
  C3: a time/division value without table entry has to be reported to the caller as an
  unsupported configuration, before any stop or read. The code at mode \<^verbatim>\<open>RAW\<close>, depth
  \<^verbatim>\<open>LONG\<close>, one channel and 3 ms per division: the \<^verbatim>\<open>KeyError\<close> of the lookup is caught
  and answered with a printed message, then \<^verbatim>\<open>return nDev\<close> finds the local unbound, so
  what reaches the caller of \<open>getNDevs\<close> and of \<open>readWaveform\<close> is \<^verbatim>\<open>UnboundLocalError\<close>.
  The commands written are the seven setting queries; no \<^verbatim>\<open>:STOP\<close>, \<^verbatim>\<open>:WAV:DATA?\<close> or
  \<^verbatim>\<open>:RUN\<close>.
\<close>

theorem missing_division_entry_at_3ms:
  "fst (getNDevs long_scope (fresh (Some 1))) = Inl UnboundLocalError
   \<and> fst (readWaveform long_scope ''1'' True (fresh (Some 1))) = Inl UnboundLocalError
   \<and> issued (fresh (Some 1)) (snd (readWaveform long_scope ''1'' True (fresh (Some 1))))
       = ['':WAV:POINTS:MODE?'', '':ACQ:MEMDEPTH?'', '':TIM:SCAL?'', '':TIM:OFFS?'',
          '':TIM:SCAL?'', '':WAV:POINTS:MODE?'', '':ACQ:MEMDEPTH?'']"
proof -
  have "getTimeVec long_scope (fresh (Some 1)) =
          (Inl UnboundLocalError,
           \<lparr>nChannels = Some 1, nPoints = Some 1048586, tScale = Some (3 / 1000),
            tOffs = Some 0, acqMode = Some ''RAW'', memDepth = Some ''LONG'',
            sent = ['':WAV:POINTS:MODE?'', '':ACQ:MEMDEPTH?'', '':TIM:SCAL?'', '':TIM:OFFS?'',
                    '':TIM:SCAL?'', '':WAV:POINTS:MODE?'', '':ACQ:MEMDEPTH?'']\<rparr>)"
    by (simp add: getTimeVec_def andThen_def getNPoints_eq getTScale_eq getTOffset_eq
        getNDevs_eq attr_def throw_def long_scope_def steady_respond steady_respond_Cons
        steady_pyfloat Let_def table_answer_def long_table_def demo_float_def fresh_def
        dataPointSwitch_def devDict_def devDict_long_1_def)
  then have "readWaveform long_scope ''1'' True (fresh (Some 1)) =
          (Inl UnboundLocalError,
           \<lparr>nChannels = Some 1, nPoints = Some 1048586, tScale = Some (3 / 1000),
            tOffs = Some 0, acqMode = Some ''RAW'', memDepth = Some ''LONG'',
            sent = ['':WAV:POINTS:MODE?'', '':ACQ:MEMDEPTH?'', '':TIM:SCAL?'', '':TIM:OFFS?'',
                    '':TIM:SCAL?'', '':WAV:POINTS:MODE?'', '':ACQ:MEMDEPTH?'']\<rparr>)"
    unfolding readWaveform_def by (rule andThen_Inl)
  moreover have "fst (getNDevs long_scope (fresh (Some 1))) = Inl UnboundLocalError"
    by (simp add: getNDevs_eq long_scope_def steady_respond steady_respond_Cons steady_pyfloat
        Let_def table_answer_def long_table_def demo_float_def fresh_def devDict_def
        devDict_long_1_def)
  ultimately show ?thesis
    by (simp add: issued_def fresh_def)
qed

lemma missing_division_entry_instance:
  "nChannels (fresh (Some 1)) = Some 1
   \<and> take 100 (table_answer long_table '':WAV:POINTS:MODE?'') \<noteq> ''NORMAL''
   \<and> devDict (take 100 (table_answer long_table '':ACQ:MEMDEPTH?'')) 1 = Some devDict_long_1
   \<and> demo_float (take 100 (table_answer long_table '':TIM:SCAL?'')) = Some (3 / 1000)
   \<and> map_of devDict_long_1 (3 / 1000) = None
   \<and> isl (fst (readWaveform long_scope ''1'' True (fresh (Some 1))))
   \<and> set (issued (fresh (Some 1)) (snd (readWaveform long_scope ''1'' True (fresh (Some 1)))))
       \<subseteq> {'':WAV:POINTS:MODE?'', '':ACQ:MEMDEPTH?'', '':TIM:SCAL?'', '':TIM:OFFS?''}"
proof -
  have a: "nChannels (fresh (Some 1)) = Some 1"
    by (simp add: fresh_def)
  have b: "take 100 (table_answer long_table '':WAV:POINTS:MODE?'') \<noteq> ''NORMAL''"
    by (simp add: table_answer_def long_table_def)
  have c: "devDict (take 100 (table_answer long_table '':ACQ:MEMDEPTH?'')) 1 = Some devDict_long_1"
    by (simp add: table_answer_def long_table_def devDict_def)
  have d: "demo_float (take 100 (table_answer long_table '':TIM:SCAL?'')) = Some (3 / 1000)"
    by (simp add: table_answer_def long_table_def demo_float_def)
  have e: "map_of devDict_long_1 (3 / 1000) = None"
    by (simp add: devDict_long_1_def)
  from missing_division_entry [where answer = "table_answer long_table" and pfloat = demo_float
      and pint = demo_int, OF a b c d e long_scope_def, of "''1''" True] a b c d e
  show ?thesis by simp
qed

subsection \<open>The steps of a read after the time axis\<close>

lemma readTrace_eq:
  "readTrace env c s =
     (case nPoints s of
        None \<Rightarrow> (Inl AttributeError, s\<lparr>sent := sent s @ ['':WAV:DATA? CHAN'' @ pystr c]\<rparr>)
      | Some nP \<Rightarrow>
          (Inr (map of_char (drop 10 (take (nat nP)
                  (respond env (sent s @ ['':WAV:DATA? CHAN'' @ pystr c]))))),
           s\<lparr>sent := sent s @ ['':WAV:DATA? CHAN'' @ pystr c]\<rparr>))"
  by (simp add: readTrace_def andThen_def scope_write_def attr_def scope_read_def ret_def
      split: option.splits)

lemma andThen_ret: "andThen (ret x) f = f x"
  by (rule ext) (simp add: andThen_def ret_def)

lemma andThen_throw: "andThen (throw e) f = throw e"
  by (rule ext) (simp add: andThen_def throw_def)

lemma andThen_scope_write: "andThen (scope_write c) f s = f () (s\<lparr>sent := sent s @ [c]\<rparr>)"
  by (simp add: andThen_def scope_write_def)

lemma andThen_attr:
  "fld s = Some v \<Longrightarrow> andThen (attr fld) f s = f v s"
  by (simp add: andThen_def attr_def)

lemma andThen_readTrace:
  "nPoints s = Some nP \<Longrightarrow>
   andThen (readTrace env c) f s =
     f (map of_char (drop 10 (take (nat nP) (respond env (sent s @ ['':WAV:DATA? CHAN'' @ pystr c])))))
       (s\<lparr>sent := sent s @ ['':WAV:DATA? CHAN'' @ pystr c]\<rparr>)"
  by (simp add: andThen_def readTrace_eq)

lemma andThen_getTimeVec:
  "getTimeVec env s = (Inr tData, s1) \<Longrightarrow> andThen (getTimeVec env) f s = f tData s1"
  by (simp add: andThen_def)

text \<open>The rest of \<open>readWaveform\<close> once the time axis is there and the channel is known.\<close>

lemma readWaveform_after_timeVec:
  assumes "getTimeVec env s = (Inr tData, s1)" and "nPoints s1 = Some nP"
    and "(if upper channel = ''BOTH'' then Some (1, True)
          else map_option (\<lambda>c. (c, False)) (pyint env channel)) = Some (c, both)"
    and "L1 = sent s1 @ (if 610 < nP \<and> stopping then ['':STOP''] else [])
                @ ['':WAV:DATA? CHAN'' @ pystr c]"
    and "L2 = L1 @ (if both then ['':WAV:DATA? CHAN2''] else [])"
    and "L3 = L2 @ (if 610 < nP then ['':RUN''] else [])"
    and "data = map of_char (drop 10 (take (nat nP) (respond env L1)))"
    and "data2 = (if both then map of_char (drop 10 (take (nat nP) (respond env L2))) else [])"
  shows "readWaveform env channel stopping s =
     andThen (rescaleToVolts env data c) (\<lambda>Vdata.
       if both then
         andThen (rescaleToVolts env data2 2) (\<lambda>Vdata2.
           lift (column_stack [tData, Vdata, Vdata2]))
       else lift (column_stack [tData, Vdata])) (s1\<lparr>sent := L3\<rparr>)"
proof (cases "upper channel = ''BOTH''")
  case True
  with assms(3) have cb: "c = 1" "both" by simp_all
  show ?thesis
    unfolding readWaveform_def andThen_getTimeVec [OF assms(1)]
    using assms(2) True
    by (simp add: cb assms(4-8) andThen_ret andThen_scope_write andThen_attr andThen_readTrace
        pystr_2)
next
  case False
  with assms(3) have cb: "pyint env channel = Some c" "\<not> both" by auto
  show ?thesis
    unfolding readWaveform_def andThen_getTimeVec [OF assms(1)]
    using assms(2) False
    by (simp add: cb assms(4-8) andThen_ret andThen_scope_write andThen_attr andThen_readTrace
        to_int_def)
qed

lemma readWaveform_bad_channel:
  assumes "getTimeVec env s = (Inr tData, s1)"
    and "upper channel \<noteq> ''BOTH''" and "pyint env channel = None"
  shows "readWaveform env channel stopping s = (Inl ValueError, s1)"
  unfolding readWaveform_def andThen_getTimeVec [OF assms(1)]
  using assms(2,3)
  by (simp add: to_int_def andThen_throw throw_def)

subsection \<open>The object after the time axis and after the rescaling\<close>

lemma andThen_InrE:
  assumes "andThen m f s = (Inr y, s')"
  obtains x s1 where "m s = (Inr x, s1)" and "f x s1 = (Inr y, s')"
  using andThen_InrD [OF assms] by blast

lemma dataPointSwitch_values:
  "dataPointSwitch mode depth nCh = Some n \<Longrightarrow> n \<in> {610, 8202, 16394, 524298, 1048586}"
  by (auto simp: dataPointSwitch_def split: if_splits)

lemma attr_InrD: "attr fld s = (Inr v, s') \<Longrightarrow> s' = s \<and> fld s = Some v"
  by (auto simp: attr_def split: option.splits)

lemma getNPoints_InrD:
  "getNPoints env s = (Inr u, s') \<Longrightarrow>
   \<exists>n. nPoints s' = Some n \<and> n \<in> {610, 8202, 16394, 524298, 1048586}"
  by (auto simp: getNPoints_eq Let_def split: option.splits dest: dataPointSwitch_values)

lemma nPoints_getTScale: "getTScale env s = (r, s') \<Longrightarrow> nPoints s' = nPoints s"
  by (auto simp: getTScale_eq split: option.splits)

lemma nPoints_getTOffset: "getTOffset env s = (r, s') \<Longrightarrow> nPoints s' = nPoints s"
  by (auto simp: getTOffset_eq split: option.splits)

lemma nPoints_getNDevs: "getNDevs env s = (r, s') \<Longrightarrow> nPoints s' = nPoints s"
  by (auto simp: getNDevs_eq Let_def split: option.splits if_splits)

lemma getTimeVec_InrD:
  assumes "getTimeVec env s = (Inr tData, s1)"
  shows "\<exists>n. nPoints s1 = Some n \<and> n \<in> {610, 8202, 16394, 524298, 1048586}"
  using assms unfolding getTimeVec_def
proof (elim andThen_InrE)
  fix u1 sa u2 sb u3 sc nP sd nDevs se tS sf tO sg
  assume 1: "getNPoints env s = (Inr u1, sa)"
    and 2: "getTScale env sa = (Inr u2, sb)"
    and 3: "getTOffset env sb = (Inr u3, sc)"
    and 4: "attr nPoints sc = (Inr nP, sd)"
    and 5: "getNDevs env sd = (Inr nDevs, se)"
    and 6: "attr tScale se = (Inr tS, sf)"
    and 7: "attr tOffs sf = (Inr tO, sg)"
    and 8: "(let nDataPoints = nP - 10 in
       if nDataPoints = 0 then throw ZeroDivisionError
       else
         let dt = fl (fl (tS * nDevs) / of_int nDataPoints) in
         andThen (lift (arange (fl (fl (- tS * nDevs) / 2)) (fl (fl (tS * nDevs) / 2)) dt))
           (\<lambda>timeVec. ret (map (\<lambda>x. fl (x + tO)) timeVec))) sg = (Inr tData, s1)"
  from 8 have "s1 = sg"
    by (auto simp: Let_def throw_def andThen_def lift_def ret_def split: if_splits sum.splits)
  with attr_InrD [OF 4] attr_InrD [OF 6] attr_InrD [OF 7]
    nPoints_getTScale [OF 2] nPoints_getTOffset [OF 3] nPoints_getNDevs [OF 5]
  have "nPoints s1 = nPoints sa" by simp
  with getNPoints_InrD [OF 1] show ?thesis by simp
qed

lemma andThen_nPoints:
  assumes "\<And>s. nPoints (snd (m s)) = nPoints s"
    and "\<And>x s. nPoints (snd (f x s)) = nPoints s"
  shows "nPoints (snd (andThen m f s)) = nPoints s"
  using assms(1) [of s] assms(2)
  by (cases "m s") (auto simp: andThen_def split: sum.splits)

lemma rescaleToVolts_nPoints: "nPoints (snd (rescaleToVolts env d c s)) = nPoints s"
  by (simp add: rescaleToVolts_eq getVOffset_eq getVScale_eq split: option.splits)

lemma rescaleToVolts_sent:
  "'':CHAN'' @ pystr c @ '':OFFS?'' \<in> Q \<Longrightarrow> '':CHAN'' @ pystr c @ '':SCAL?'' \<in> Q \<Longrightarrow>
   \<exists>new. sent (snd (rescaleToVolts env d c s)) = sent s @ new \<and> set new \<subseteq> Q"
  by (simp add: rescaleToVolts_eq getVOffset_eq getVScale_eq split: option.splits)

text \<open>The last part of a read: rescaling and stacking the columns.\<close>

lemma stack_nPoints:
  "nPoints (snd (andThen (rescaleToVolts env data c) (\<lambda>Vdata.
       if both then
         andThen (rescaleToVolts env data2 2) (\<lambda>Vdata2.
           lift (column_stack [tData, Vdata, Vdata2]))
       else lift (column_stack [tData, Vdata])) s)) = nPoints s"
  by (intro andThen_nPoints rescaleToVolts_nPoints) (simp add: andThen_nPoints
      rescaleToVolts_nPoints lift_def)

lemma stack_sent:
  "\<exists>new. sent (snd (andThen (rescaleToVolts env data c) (\<lambda>Vdata.
       if both then
         andThen (rescaleToVolts env data2 2) (\<lambda>Vdata2.
           lift (column_stack [tData, Vdata, Vdata2]))
       else lift (column_stack [tData, Vdata])) s)) = sent s @ new
     \<and> set new \<subseteq> {'':CHAN'' @ pystr c @ '':OFFS?'', '':CHAN'' @ pystr c @ '':SCAL?'',
                    '':CHAN'' @ pystr 2 @ '':OFFS?'', '':CHAN'' @ pystr 2 @ '':SCAL?''}"
proof (rule andThen_sent)
  fix s
  show "\<exists>new. sent (snd (rescaleToVolts env data c s)) = sent s @ new
     \<and> set new \<subseteq> {'':CHAN'' @ pystr c @ '':OFFS?'', '':CHAN'' @ pystr c @ '':SCAL?'',
                    '':CHAN'' @ pystr 2 @ '':OFFS?'', '':CHAN'' @ pystr 2 @ '':SCAL?''}"
    by (rule rescaleToVolts_sent) simp_all
next
  fix Vdata s
  show "\<exists>new. sent (snd ((if both then
         andThen (rescaleToVolts env data2 2) (\<lambda>Vdata2.
           lift (column_stack [tData, Vdata, Vdata2]))
       else lift (column_stack [tData, Vdata])) s)) = sent s @ new
     \<and> set new \<subseteq> {'':CHAN'' @ pystr c @ '':OFFS?'', '':CHAN'' @ pystr c @ '':SCAL?'',
                    '':CHAN'' @ pystr 2 @ '':OFFS?'', '':CHAN'' @ pystr 2 @ '':SCAL?''}"
  proof (cases both)
    case True
    have "\<exists>new. sent (snd (andThen (rescaleToVolts env data2 2) (\<lambda>Vdata2.
           lift (column_stack [tData, Vdata, Vdata2])) s)) = sent s @ new
     \<and> set new \<subseteq> {'':CHAN'' @ pystr c @ '':OFFS?'', '':CHAN'' @ pystr c @ '':SCAL?'',
                    '':CHAN'' @ pystr 2 @ '':OFFS?'', '':CHAN'' @ pystr 2 @ '':SCAL?''}"
      by (intro andThen_sent rescaleToVolts_sent pure_sent) simp_all
    with True show ?thesis by simp
  next
    case False
    then show ?thesis by (simp add: lift_def)
  qed
qed

subsection \<open>Stop and resume\<close>

lemma not_stop_run:
  "'':STOP'' \<notin> {'':WAV:POINTS:MODE?'', '':ACQ:MEMDEPTH?'', '':TIM:SCAL?'', '':TIM:OFFS?''}"
  "'':RUN'' \<notin> {'':WAV:POINTS:MODE?'', '':ACQ:MEMDEPTH?'', '':TIM:SCAL?'', '':TIM:OFFS?''}"
  "'':STOP'' \<notin> {'':CHAN'' @ pystr c @ '':OFFS?'', '':CHAN'' @ pystr c @ '':SCAL?'',
                    '':CHAN'' @ pystr 2 @ '':OFFS?'', '':CHAN'' @ pystr 2 @ '':SCAL?''}"
  "'':RUN'' \<notin> {'':CHAN'' @ pystr c @ '':OFFS?'', '':CHAN'' @ pystr c @ '':SCAL?'',
                    '':CHAN'' @ pystr 2 @ '':OFFS?'', '':CHAN'' @ pystr 2 @ '':SCAL?''}"
  "'':STOP'' \<noteq> '':WAV:DATA? CHAN'' @ x" "'':RUN'' \<noteq> '':WAV:DATA? CHAN'' @ x"
  "'':STOP'' \<noteq> '':WAV:DATA? CHAN2''" "'':RUN'' \<noteq> '':WAV:DATA? CHAN2''"
  by simp_all

text \<open>
  C5 (as the code has it): in a call of \<open>readWaveform\<close>, \<^verbatim>\<open>:STOP\<close> is written only when
  \<open>stopping\<close> is true, and a call that wrote \<^verbatim>\<open>:STOP\<close> writes \<^verbatim>\<open>:RUN\<close> too. The
  resume command does not depend on the stop command, though: in a call that returns,
  \<^verbatim>\<open>:RUN\<close> is written exactly when the sample count exceeds 610, and \<^verbatim>\<open>:STOP\<close> exactly
  when in addition \<open>stopping\<close> is true.
\<close>

theorem readWaveform_stop_run:
  assumes "readWaveform env channel stopping s = (r, s')"
  shows "('':STOP'' \<in> set (issued s s') \<longrightarrow> stopping \<and> '':RUN'' \<in> set (issued s s'))
       \<and> (\<not> isl r \<longrightarrow>
            ('':RUN'' \<in> set (issued s s') \<longleftrightarrow> (\<exists>n. nPoints s' = Some n \<and> 610 < n))
          \<and> ('':STOP'' \<in> set (issued s s') \<longleftrightarrow>
               stopping \<and> (\<exists>n. nPoints s' = Some n \<and> 610 < n)))"
proof (cases "getTimeVec env s")
  case (Pair r0 s1)
  from getTimeVec_sent [of env s] Pair obtain new0
    where new0: "sent s1 = sent s @ new0"
      "set new0 \<subseteq> {'':WAV:POINTS:MODE?'', '':ACQ:MEMDEPTH?'', '':TIM:SCAL?'', '':TIM:OFFS?''}"
    by auto
  have q0: "'':STOP'' \<notin> set new0" "'':RUN'' \<notin> set new0"
    using subsetD [OF new0(2), of "'':STOP''"] subsetD [OF new0(2), of "'':RUN''"]
    by (auto simp: not_stop_run)
  show ?thesis
  proof (cases r0)
    case (Inl e)
    with Pair have "readWaveform env channel stopping s = (Inl e, s1)"
      unfolding readWaveform_def by (simp add: andThen_Inl)
    with assms new0 q0 show ?thesis
      by (auto simp: issued_append)
  next
    case (Inr tData)
    with Pair have tv: "getTimeVec env s = (Inr tData, s1)" by simp
    from getTimeVec_InrD [OF tv] obtain n where n: "nPoints s1 = Some n" by blast
    show ?thesis
    proof (cases "if upper channel = ''BOTH'' then Some (1, True)
          else map_option (\<lambda>c. (c, False)) (pyint env channel)")
      case None
      then have "upper channel \<noteq> ''BOTH''" "pyint env channel = None"
        by (auto split: if_splits)
      from readWaveform_bad_channel [OF tv this] assms new0 q0 show ?thesis
        by (auto simp: issued_append)
    next
      case (Some cb)
      obtain c both where cb: "cb = (c, both)" by (cases cb)
      define L3 where "L3 = sent s1 @ (if 610 < n \<and> stopping then ['':STOP''] else [])
                @ ['':WAV:DATA? CHAN'' @ pystr c] @ (if both then ['':WAV:DATA? CHAN2''] else [])
                @ (if 610 < n then ['':RUN''] else [])"
      define s3 where "s3 = s1\<lparr>sent := L3\<rparr>"
      from readWaveform_after_timeVec [OF tv n Some [unfolded cb] refl refl refl refl refl]
      obtain data data2 where rw: "readWaveform env channel stopping s =
         andThen (rescaleToVolts env data c) (\<lambda>Vdata.
           if both then
             andThen (rescaleToVolts env data2 2) (\<lambda>Vdata2.
               lift (column_stack [tData, Vdata, Vdata2]))
           else lift (column_stack [tData, Vdata])) s3"
        by (simp add: s3_def L3_def)
      from rw assms have sT: "andThen (rescaleToVolts env data c) (\<lambda>Vdata.
           if both then
             andThen (rescaleToVolts env data2 2) (\<lambda>Vdata2.
               lift (column_stack [tData, Vdata, Vdata2]))
           else lift (column_stack [tData, Vdata])) s3 = (r, s')"
        by simp
      from stack_sent [of env data c both data2 tData s3] obtain new4
        where "sent (snd (andThen (rescaleToVolts env data c) (\<lambda>Vdata.
           if both then
             andThen (rescaleToVolts env data2 2) (\<lambda>Vdata2.
               lift (column_stack [tData, Vdata, Vdata2]))
           else lift (column_stack [tData, Vdata])) s3)) = sent s3 @ new4"
          and "set new4 \<subseteq> {'':CHAN'' @ pystr c @ '':OFFS?'', '':CHAN'' @ pystr c @ '':SCAL?'',
                    '':CHAN'' @ pystr 2 @ '':OFFS?'', '':CHAN'' @ pystr 2 @ '':SCAL?''}"
        by blast
      then have new4: "sent s' = sent s3 @ new4"
          "set new4 \<subseteq> {'':CHAN'' @ pystr c @ '':OFFS?'', '':CHAN'' @ pystr c @ '':SCAL?'',
                    '':CHAN'' @ pystr 2 @ '':OFFS?'', '':CHAN'' @ pystr 2 @ '':SCAL?''}"
        unfolding sT by simp_all
      have q4: "'':STOP'' \<notin> set new4" "'':RUN'' \<notin> set new4"
        using subsetD [OF new4(2), of "'':STOP''"] subsetD [OF new4(2), of "'':RUN''"]
        by (auto simp: not_stop_run)
      from stack_nPoints [of env data c both data2 tData s3] n
      have n': "nPoints s' = Some n"
        unfolding sT by (simp add: s3_def)
      have iss: "issued s s' = new0 @ (if 610 < n \<and> stopping then ['':STOP''] else [])
                @ ['':WAV:DATA? CHAN'' @ pystr c] @ (if both then ['':WAV:DATA? CHAN2''] else [])
                @ (if 610 < n then ['':RUN''] else []) @ new4"
        using new4(1) new0(1) by (simp add: issued_def s3_def L3_def)
      show ?thesis
        unfolding iss using q0 q4 n' by (auto simp: not_stop_run(5-8) [symmetric])
    qed
  qed
qed

subsection \<open>Rounding\<close>

lemma np_round_lower: "x - 1 / 2 \<le> of_int (np_round x)"
  unfolding np_round_def Let_def by (simp; linarith)

lemma np_round_upper: "of_int (np_round x) \<le> x + 1 / 2"
  unfolding np_round_def Let_def by (simp; linarith)

text \<open>
  A rounded result is within half a unit in the last place of the exact one: within
  \<open>2 ^ (-53)\<close> of it in relative terms, or within \<open>2 ^ (-1075)\<close> for a subnormal one.
\<close>

lemma scan_numeral:
  "scan (numeral n) e p x = (if p \<le> \<bar>x\<bar> then e else scan (pred_numeral n) (e - 1) (p / 2) x)"
  by (simp add: numeral_eq_Suc)

lemma scan_char:
  "p = 2 powi e \<Longrightarrow> scan k e p x = e - int k \<or> 2 powi (scan k e p x) \<le> \<bar>x\<bar>"
proof (induction k arbitrary: e p)
  case 0
  then show ?case by simp
next
  case (Suc k)
  have "p / 2 = 2 powi (e - 1)"
    using Suc.prems by (simp add: power_int_diff)
  from Suc.IH [OF this] Suc.prems show ?case
    by auto
qed

lemma binade_char: "binade x = - 1022 \<or> 2 powi (binade x) \<le> \<bar>x\<bar>"
  using scan_char [of "2 ^ 1023" 1023 2045 x] by (simp add: binade_def)

lemma fl_error: "\<bar>fl x - x\<bar> \<le> 2 powi (binade x - 53)"
proof -
  define u :: real where "u = 2 powi (binade x - 52)"
  have u: "0 < u" by (simp add: u_def)
  have h: "2 powi (binade x - 53) = u / 2"
    by (simp add: u_def power_int_diff)
  have "\<bar>of_int (np_round (x / u)) - x / u\<bar> \<le> 1 / 2"
    using np_round_lower [of "x / u"] np_round_upper [of "x / u"] by linarith
  then have "\<bar>of_int (np_round (x / u)) - x / u\<bar> * u \<le> 1 / 2 * u"
    using u by (intro mult_right_mono) simp_all
  moreover have "(of_int (np_round (x / u)) - x / u) * u = of_int (np_round (x / u)) * u - x"
    using u by (simp add: left_diff_distrib)
  then have "\<bar>of_int (np_round (x / u)) - x / u\<bar> * u = \<bar>of_int (np_round (x / u)) * u - x\<bar>"
    using u abs_mult [of "of_int (np_round (x / u)) - x / u" u] by simp
  ultimately show ?thesis
    by (simp add: fl_def Let_def u_def [symmetric] h)
qed

lemma tiny_le: "(2::real) powi (- 1075) \<le> 1 / 2 ^ 53"
proof -
  have "(2::real) powi (- 1075) \<le> 2 powi (- 53)"
    by (rule power_int_increasing) simp_all
  then show ?thesis
    by (simp add: power_int_minus field_simps)
qed

lemma fl_error_rel: "\<bar>fl x - x\<bar> \<le> (\<bar>x\<bar> + 1) / 2 ^ 53"
proof -
  from binade_char [of x] show ?thesis
  proof
    assume "binade x = - 1022"
    with fl_error [of x] have "\<bar>fl x - x\<bar> \<le> 2 powi (- 1075)" by simp
    also have "\<dots> \<le> 1 / 2 ^ 53" by (rule tiny_le)
    also have "\<dots> \<le> (\<bar>x\<bar> + 1) / 2 ^ 53" by (simp add: divide_right_mono)
    finally show ?thesis .
  next
    assume b: "2 powi (binade x) \<le> \<bar>x\<bar>"
    have "2 powi (binade x - 53) = 2 powi (binade x) / (2 ^ 53 :: real)"
      by (simp add: power_int_diff)
    also have "\<dots> \<le> \<bar>x\<bar> / 2 ^ 53"
      using b by (simp add: divide_right_mono)
    also have "\<dots> \<le> (\<bar>x\<bar> + 1) / 2 ^ 53"
      by (simp add: divide_right_mono)
    finally show ?thesis
      using fl_error [of x] by linarith
  qed
qed

text \<open>
  C8: for every value \<open>v\<close> in \<open>[0, 1]\<close>, quantising with \<open>V2b\<close> and decoding with \<open>b2V\<close>
  gives a value that differs from \<open>v\<close> by at most \<open>1 / 16383\<close>; the product and the
  quotient are rounded to doubles.
\<close>

theorem V2b_b2V_roundtrip:
  assumes "0 \<le> v" and "v \<le> 1"
  shows "\<bar>b2V (V2b v) - v\<bar> \<le> 1 / 16383"
proof -
  define x where "x = 16383 * v"
  define y where "y = fl x"
  define b :: real where "b = of_int (np_round y)"
  define z where "z = b / 16383"
  have x: "0 \<le> x" "x \<le> 16383"
    using assms by (simp_all add: x_def)
  have "\<bar>y - x\<bar> \<le> (\<bar>x\<bar> + 1) / 2 ^ 53"
    unfolding y_def by (rule fl_error_rel)
  with x have yx: "\<bar>y - x\<bar> \<le> 16384 / 2 ^ 53"
    by simp
  have bnd: "\<bar>b - y\<bar> \<le> 1 / 2"
    using np_round_lower [of y] np_round_upper [of y] unfolding b_def by linarith
  have zv: "z - v = (b - x) / 16383"
    by (simp add: z_def x_def field_simps)
  have bx: "\<bar>b - x\<bar> \<le> 1 / 2 + 16384 / 2 ^ 53"
    using yx bnd by linarith
  then have zv': "\<bar>z - v\<bar> \<le> (1 / 2 + 16384 / 2 ^ 53) / 16383"
    unfolding zv by (simp add: divide_right_mono)
  have c1: "(1 / 2 + 16384 / 2 ^ 53) / 16383 \<le> (1::real)"
    by simp
  have c2: "3 / 2 ^ 53 + (1 / 2 + 16384 / 2 ^ 53) / 16383 \<le> (1 / 16383 :: real)"
    by simp
  have "\<bar>z\<bar> \<le> 2"
    using assms zv' c1 by linarith
  moreover have "\<bar>fl z - z\<bar> \<le> (\<bar>z\<bar> + 1) / 2 ^ 53"
    by (rule fl_error_rel)
  ultimately have "\<bar>fl z - z\<bar> \<le> (2 + 1) / 2 ^ 53"
    by (meson add_right_mono divide_right_mono order_trans zero_le_numeral zero_le_power)
  then have fz: "\<bar>fl z - z\<bar> \<le> 3 / 2 ^ 53"
    by simp
  have "b2V (V2b v) = fl z"
    by (simp add: b2V_def V2b_def bitrange_def z_def b_def y_def x_def)
  with fz zv' c2 show ?thesis
    by linarith
qed

theorem V2b_b2V_roundtrip_witness:
  "(0::real) \<le> 1 / 2 \<and> (1 / 2 :: real) \<le> 1 \<and> \<bar>b2V (V2b (1 / 2)) - 1 / 2\<bar> \<le> 1 / 16383"
  using V2b_b2V_roundtrip [of "1 / 2"] by simp

subsection \<open>Existence of the time axis\<close>

lemma fl_err: "\<bar>fl x - x\<bar> \<le> (\<bar>x\<bar> + 1) / 9007199254740992"
  using fl_error_rel [of x] by simp

lemma fl_abs_le: "\<bar>fl x\<bar> \<le> 2 * \<bar>x\<bar> + 1"
  using fl_err [of x] by argo

lemma fl_near:
  assumes "1 / 10000000000 \<le> x" and "x \<le> 2000"
  shows "x / 2 \<le> fl x" and "fl x \<le> 2 * x"
  using fl_err [of x] assms by argo+

text \<open>The time axis exists for a span between a millisecond and a kilosecond.\<close>

lemma arange_timeVec:
  assumes "1 / 1000 \<le> P" and "P \<le> 1000" and "M = - P" and "600 \<le> N" and "N \<le> 2000000"
  shows "\<exists>tv. arange (fl (fl M / 2)) (fl (fl P / 2)) (fl (fl P / of_int N)) = Inr tv"
proof -
  have X: "1 / 2000 \<le> fl P" "fl P \<le> 2000"
    using fl_near [of P] assms(1,2) by argo+
  have N: "(600::real) \<le> of_int N" "of_int N \<le> (2000000::real)"
    using assms by simp_all
  have hi: "fl P / of_int N \<le> 2000 / 600"
    using X N by (intro frac_le) simp_all
  have lo: "1 / 2000 / 2000000 \<le> fl P / of_int N"
    using X N by (intro frac_le) simp_all
  have "fl P / of_int N / 2 \<le> fl (fl P / of_int N)"
    using hi lo by (intro fl_near(1)) argo+
  with lo have dt: "1 / 10000000000 \<le> fl (fl P / of_int N)"
    by argo
  have "\<bar>fl P / 2\<bar> \<le> 1000" using X by argo
  with fl_abs_le [of "fl P / 2"] have stop: "\<bar>fl (fl P / 2)\<bar> \<le> 2001" by argo
  have "\<bar>fl M\<bar> \<le> 2001" using fl_abs_le [of M] assms(1-3) by argo
  then have "\<bar>fl M / 2\<bar> \<le> 1001" by argo
  with fl_abs_le [of "fl M / 2"] have start: "\<bar>fl (fl M / 2)\<bar> \<le> 2003" by argo
  have "\<bar>fl (fl P / 2) - fl (fl M / 2)\<bar> \<le> 4004"
    using stop start by argo
  with fl_abs_le [of "fl (fl P / 2) - fl (fl M / 2)"]
  have d: "\<bar>fl (fl (fl P / 2) - fl (fl M / 2))\<bar> \<le> 8009" by argo
  have "\<bar>fl (fl (fl P / 2) - fl (fl M / 2)) / fl (fl P / of_int N)\<bar>
      = \<bar>fl (fl (fl P / 2) - fl (fl M / 2))\<bar> / fl (fl P / of_int N)"
    using dt by simp
  also have "\<dots> \<le> 8009 / (1 / 10000000000)"
    using d dt by (intro frac_le) simp_all
  finally have "\<bar>fl (fl (fl P / 2) - fl (fl M / 2)) / fl (fl P / of_int N)\<bar> \<le> 80090000000000"
    by simp
  with fl_abs_le [of "fl (fl (fl P / 2) - fl (fl M / 2)) / fl (fl P / of_int N)"]
  have "fl (fl (fl (fl P / 2) - fl (fl M / 2)) / fl (fl P / of_int N)) \<le> 160180000000001"
    by argo
  then have "\<lceil>fl (fl (fl (fl P / 2) - fl (fl M / 2)) / fl (fl P / of_int N))\<rceil> \<le> 160180000000001"
    by (simp add: ceiling_le_iff)
  then have "\<not> 2 ^ 63 \<le> \<lceil>fl (fl (fl (fl P / 2) - fl (fl M / 2)) / fl (fl P / of_int N))\<rceil>"
    by simp
  moreover from dt have "fl (fl P / of_int N) \<noteq> 0" by argo
  ultimately show ?thesis
    by (simp add: arange_def Let_def)
qed

lemma getTimeVec_steady:
  assumes "nChannels s = Some nCh"
    and "dataPointSwitch (take 100 (answer '':WAV:POINTS:MODE?''))
           (take 100 (answer '':ACQ:MEMDEPTH?'')) nCh = Some n"
    and "pfloat (take 100 (answer '':TIM:SCAL?'')) = Some tS"
    and "pfloat (take 100 (answer '':TIM:OFFS?'')) = Some tO"
    and "(if take 100 (answer '':WAV:POINTS:MODE?'') = ''NORMAL'' then Some 12
          else case devDict (take 100 (answer '':ACQ:MEMDEPTH?'')) nCh of
                 None \<Rightarrow> None | Some d \<Rightarrow> map_of d tS) = Some nDevs"
    and "arange (fl (fl (- tS * nDevs) / 2)) (fl (fl (tS * nDevs) / 2))
           (fl (fl (tS * nDevs) / of_int (n - 10))) = Inr tv"
    and "n \<noteq> 10"
  shows "\<exists>s1. getTimeVec (steady answer pfloat pint) s = (Inr (map (\<lambda>x. fl (x + tO)) tv), s1)
            \<and> nPoints s1 = Some n \<and> nChannels s1 = Some nCh
            \<and> sent s1 = sent s @ ['':WAV:POINTS:MODE?'', '':ACQ:MEMDEPTH?'', '':TIM:SCAL?'',
                 '':TIM:OFFS?'', '':TIM:SCAL?'', '':WAV:POINTS:MODE?'', '':ACQ:MEMDEPTH?'']"
  using assms
  by (auto simp: getTimeVec_def andThen_def getNPoints_eq getTScale_eq getTOffset_eq getNDevs_eq
      attr_def throw_def ret_def lift_def steady_respond steady_pyfloat Let_def
      split: option.splits if_splits)

end
